theory Spec2Isabelle
  imports Main "HOL-Library.Sublist"
begin

section \<open>Data model of \<open>ddns_updater.py\<close>\<close>

text \<open>
  Values decoded from a JSON body (what \<open>response.json()\<close> can return) and values passed
  as keyword arguments to the provider SDK. A JSON object is the Python \<open>dict\<close> it
  decodes to, kept as an association list and read with \<open>map_of\<close>. Numbers are kept as
  integers; no function of the program computes with them.
\<close>

datatype json =
    JNull
  | JBool bool
  | JNum int
  | JStr string
  | JArr "json list"
  | JObj "(string \<times> json) list"

text \<open>
  The \<open>requests.Response\<close> as the program uses it: the status line, the raw body, and
  the outcome of decoding the body (\<open>None\<close> when the body is not valid JSON, in which
  case \<open>response.json()\<close> raises).
\<close>

record response =
  status_code :: nat
  body :: string
  decoded :: "json option"

text \<open>
  The provider's DNS record object. The program reads \<open>id\<close>, \<open>name\<close>, \<open>type\<close> and
  \<open>content\<close>; \<open>ttl\<close>, \<open>proxied\<close> and \<open>comment\<close> stand for the attributes it never reads.
\<close>

record dns_record =
  record_id :: string
  name :: string
  record_type :: string
  content :: string
  ttl :: nat
  proxied :: bool
  comment :: "string option"

text \<open>The arguments the \<open>Cloudflare(...)\<close> constructor is given (lines 71-77).\<close>

record client =
  api_email :: "string option"
  api_token :: string
  default_headers :: "(string \<times> string) list"

datatype error =
    KeyError string
  | TypeError
  | HTTPError response
  | JSONDecodeError
  | RequestException string
  | APIError string

text \<open>The outbound calls, in the order they are issued.\<close>

datatype call =
    HttpGet string "(string \<times> string) list"
  | RecordsGet client "(string \<times> json) list"
  | RecordsUpdate client "(string \<times> json) list"

text \<open>
  The outside world: what the lookup service and the DNS provider answer to each call.
  Each may fail (a transport error, a \<open>cloudflare.APIError\<close>).
\<close>

record env =
  requests_get :: "string \<Rightarrow> (string \<times> string) list \<Rightarrow> error + response"
  records_get :: "client \<Rightarrow> (string \<times> json) list \<Rightarrow> error + dns_record"
  records_update :: "client \<Rightarrow> (string \<times> json) list \<Rightarrow> error + dns_record"

section \<open>Operations\<close>

text \<open>\<open>secrets[k]\<close> on the keyword dictionary: a missing key raises \<open>KeyError\<close>.\<close>

definition getitem :: "(string \<rightharpoonup> string) \<Rightarrow> string \<Rightarrow> error + string" where
  "getitem d k = (case d k of None \<Rightarrow> Inl (KeyError k) | Some v \<Rightarrow> Inr v)"

text \<open>
  \<open>pub_ip_info[k]\<close> on a decoded body: a dictionary without the key raises \<open>KeyError\<close>;
  a list, a string, a number, a boolean or \<open>None\<close> indexed by a string raises
  \<open>TypeError\<close>.
\<close>

fun subscript :: "json \<Rightarrow> string \<Rightarrow> error + json" where
  "subscript (JObj kvs) k = (case map_of kvs k of None \<Rightarrow> Inl (KeyError k) | Some v \<Rightarrow> Inr v)"
| "subscript _ k = Inl TypeError"

text \<open>
  Modelled from the spec: \<open>Response.raise_for_status\<close> belongs to the \<open>requests\<close>
  library and is not part of the source file. The docstring of \<open>get_public_ip\<close> and
  section 4.1 of the spec give its behaviour: an HTTP error status code (4xx, 5xx)
  raises \<open>HTTPError\<close>, which carries the response; any other status passes.
\<close>

definition Response_raise_for_status :: "response \<Rightarrow> error + unit" where
  "Response_raise_for_status r =
     (if 400 \<le> status_code r \<and> status_code r < 600 then Inl (HTTPError r) else Inr ())"

text \<open>\<open>response.json()\<close>: the decoded body, or \<open>JSONDecodeError\<close>.\<close>

definition Response_json :: "response \<Rightarrow> error + json" where
  "Response_json r = (case decoded r of None \<Rightarrow> Inl JSONDecodeError | Some v \<Rightarrow> Inr v)"

text \<open>
  \<open>get_public_ip\<close> (lines 24-47). The list of calls issued so far is threaded through
  and returned, extended by the one GET.
\<close>

definition get_public_ip :: "env \<Rightarrow> bool \<Rightarrow> call list \<Rightarrow> (error + json) \<times> call list" where
  "get_public_ip w raise_for_status calls =
     (let url = ''https://ifconfig.co/'';
          headers = [(''Accept'', ''application/json'')];
          calls1 = calls @ [HttpGet url headers]
      in case requests_get w url headers of
           Inl e \<Rightarrow> (Inl e, calls1)
         | Inr response \<Rightarrow>
             (case (if raise_for_status then Response_raise_for_status response else Inr ()) of
                Inl e \<Rightarrow> (Inl e, calls1)
              | Inr u \<Rightarrow> (Response_json response, calls1)))"

text \<open>
  The client set up on lines 71-77. Both \<open>secrets["CLOUDFLARE_API_TOKEN"]\<close> lookups are
  kept; \<open>secrets.get("CLOUDFLARE_EMAIL")\<close> never raises.
\<close>

definition cloudflare_client :: "(string \<rightharpoonup> string) \<Rightarrow> error + client" where
  "cloudflare_client secrets =
     (let email = secrets ''CLOUDFLARE_EMAIL''
      in case getitem secrets ''CLOUDFLARE_API_TOKEN'' of
           Inl e \<Rightarrow> Inl e
         | Inr token \<Rightarrow>
             (case getitem secrets ''CLOUDFLARE_API_TOKEN'' of
                Inl e \<Rightarrow> Inl e
              | Inr token' \<Rightarrow>
                  Inr \<lparr>api_email = email, api_token = token,
                       default_headers = [(''Authorization'', ''Bearer '' @ token')]\<rparr>))"

text \<open>
  The update branch (lines 89-95): the keyword arguments are evaluated left to right,
  then the one mutating call is issued and its result returned.
\<close>

definition issue_update ::
  "env \<Rightarrow> (string \<rightharpoonup> string) \<Rightarrow> client \<Rightarrow> dns_record \<Rightarrow> json \<Rightarrow> call list
     \<Rightarrow> (error + dns_record option) \<times> call list" where
  "issue_update w secrets cl record pub_ip_info calls =
     (case subscript pub_ip_info ''ip'' of
        Inl e \<Rightarrow> (Inl e, calls)
      | Inr ip \<Rightarrow>
          (case getitem secrets ''ZONE_ID'' of
             Inl e \<Rightarrow> (Inl e, calls)
           | Inr zone \<Rightarrow>
               (let kwargs = [(''name'', JStr (name record)),
                              (''type'', JStr (record_type record)),
                              (''dns_record_id'', JStr (record_id record)),
                              (''content'', ip),
                              (''zone_id'', JStr zone)];
                    calls1 = calls @ [RecordsUpdate cl kwargs]
                in case records_update w cl kwargs of
                     Inl e \<Rightarrow> (Inl e, calls1)
                   | Inr updated \<Rightarrow> (Inr (Some updated), calls1))))"

text \<open>
  \<open>update_dns_ip\<close> (lines 50-95). \<open>Inr None\<close> is Python's \<open>None\<close>, returned when the
  function falls off its end; \<open>Inl\<close> is a raised exception. The comparison on line 87
  is Python's \<open>!=\<close> between the record's string and whatever the body holds under
  \<open>ip\<close>: a value that is not a string is never equal to it.
\<close>

definition update_dns_ip ::
  "env \<Rightarrow> bool \<Rightarrow> (string \<rightharpoonup> string) \<Rightarrow> call list
     \<Rightarrow> (error + dns_record option) \<times> call list" where
  "update_dns_ip w raise_for_status secrets calls =
     (case cloudflare_client secrets of
        Inl e \<Rightarrow> (Inl e, calls)
      | Inr cl \<Rightarrow>
     (case getitem secrets ''ZONE_ID'' of
        Inl e \<Rightarrow> (Inl e, calls)
      | Inr zone \<Rightarrow>
     (case getitem secrets ''RECORD_ID'' of
        Inl e \<Rightarrow> (Inl e, calls)
      | Inr rid \<Rightarrow>
     (let kwargs = [(''zone_id'', JStr zone), (''dns_record_id'', JStr rid)];
          calls1 = calls @ [RecordsGet cl kwargs]
      in case records_get w cl kwargs of
           Inl e \<Rightarrow> (Inl e, calls1)
         | Inr record \<Rightarrow>
     (case get_public_ip w raise_for_status calls1 of
        (Inl e, calls2) \<Rightarrow> (Inl e, calls2)
      | (Inr pub_ip_info, calls2) \<Rightarrow>
     (case subscript pub_ip_info ''ip'' of
        Inl e \<Rightarrow> (Inl e, calls2)
      | Inr ip \<Rightarrow>
          if JStr (content record) \<noteq> ip
          then issue_update w secrets cl record pub_ip_info calls2
          else (Inr None, calls2)))))))"

section \<open>Reading a list of calls\<close>

fun is_update :: "call \<Rightarrow> bool" where
  "is_update (RecordsUpdate c kw) = True"
| "is_update _ = False"

fun is_fetch :: "call \<Rightarrow> bool" where
  "is_fetch (RecordsGet c kw) = True"
| "is_fetch _ = False"

fun is_lookup :: "call \<Rightarrow> bool" where
  "is_lookup (HttpGet url hs) = True"
| "is_lookup _ = False"

text \<open>The client a provider call goes through.\<close>

fun call_client :: "call \<Rightarrow> client option" where
  "call_client (HttpGet url hs) = None"
| "call_client (RecordsGet c kw) = Some c"
| "call_client (RecordsUpdate c kw) = Some c"

abbreviation lookup_call :: call where
  "lookup_call \<equiv> HttpGet ''https://ifconfig.co/'' [(''Accept'', ''application/json'')]"

abbreviation fetch_call :: "client \<Rightarrow> string \<Rightarrow> string \<Rightarrow> call" where
  "fetch_call cl zone rid \<equiv>
     RecordsGet cl [(''zone_id'', JStr zone), (''dns_record_id'', JStr rid)]"

section \<open>Example inputs\<close>

text \<open>
  Credentials, a record and a world whose provider answers every read with the given
  record and every update with that record carrying the new content.
\<close>

definition example_secrets :: "string \<rightharpoonup> string" where
  "example_secrets =
     [''CLOUDFLARE_EMAIL'' \<mapsto> ''me@example.com'', ''CLOUDFLARE_API_TOKEN'' \<mapsto> ''s3cr3t'',
      ''ZONE_ID'' \<mapsto> ''zone-1'', ''RECORD_ID'' \<mapsto> ''rec-1'']"

definition incomplete_secrets :: "string \<rightharpoonup> string" where
  "incomplete_secrets = [''CLOUDFLARE_API_TOKEN'' \<mapsto> ''s3cr3t'', ''ZONE_ID'' \<mapsto> ''zone-1'']"

definition example_client :: client where
  "example_client =
     \<lparr>api_email = Some ''me@example.com'', api_token = ''s3cr3t'',
      default_headers = [(''Authorization'', ''Bearer s3cr3t'')]\<rparr>"

definition example_record :: dns_record where
  "example_record =
     \<lparr>record_id = ''rec-1'', name = ''home.example.com'', record_type = ''A'',
      content = ''1.2.3.4'', ttl = 300, proxied = True, comment = Some ''home''\<rparr>"

definition mock_world :: "error + response \<Rightarrow> dns_record \<Rightarrow> env" where
  "mock_world lookup record =
     \<lparr>requests_get = (\<lambda>url headers. lookup),
      records_get = (\<lambda>cl kwargs. Inr record),
      records_update = (\<lambda>cl kwargs.
         case map_of kwargs ''content'' of
           Some (JStr ip) \<Rightarrow> Inr (record\<lparr>content := ip\<rparr>)
         | _ \<Rightarrow> Inl (APIError ''content must be a string''))\<rparr>"

definition ip_response :: "nat \<Rightarrow> string \<Rightarrow> response" where
  "ip_response status ip =
     \<lparr>status_code = status, body = ''{\"ip\": \"'' @ ip @ ''\"}'',
      decoded = Some (JObj [(''ip'', JStr ip)])\<rparr>"

definition empty_body_response :: response where
  "empty_body_response = \<lparr>status_code = 500, body = [], decoded = None\<rparr>"

definition empty_object_response :: response where
  "empty_object_response = \<lparr>status_code = 500, body = ''{}'', decoded = Some (JObj [])\<rparr>"

section \<open>Auxiliary facts\<close>

lemma get_public_ip_calls:
  "snd (get_public_ip w s calls) = calls @ [lookup_call]"
  by (simp add: get_public_ip_def Let_def split: sum.splits)

lemma get_public_ip_result:
  "fst (get_public_ip w s calls) = fst (get_public_ip w s cs)"
  by (simp add: get_public_ip_def Let_def split: sum.splits)

lemma get_public_ip_eq:
  "get_public_ip w s calls = (fst (get_public_ip w s cs), calls @ [lookup_call])"
  using get_public_ip_calls [of w s calls] get_public_ip_result [of w s calls cs]
  by (metis prod.collapse)

lemma get_public_ip_records_get [simp]:
  "get_public_ip (w\<lparr>records_get := f\<rparr>) s calls = get_public_ip w s calls"
  by (simp add: get_public_ip_def)

lemma cloudflare_client_token:
  "secrets ''CLOUDFLARE_API_TOKEN'' = Some token \<Longrightarrow>
   cloudflare_client secrets =
     Inr \<lparr>api_email = secrets ''CLOUDFLARE_EMAIL'', api_token = token,
          default_headers = [(''Authorization'', ''Bearer '' @ token)]\<rparr>"
  by (simp add: cloudflare_client_def getitem_def)

lemma cloudflare_client_missing:
  "secrets ''CLOUDFLARE_API_TOKEN'' = None \<Longrightarrow>
   cloudflare_client secrets = Inl (KeyError ''CLOUDFLARE_API_TOKEN'')"
  by (simp add: cloudflare_client_def getitem_def)

lemma update_dns_ip_fetched:
  assumes "cloudflare_client secrets = Inr cl"
    and "secrets ''ZONE_ID'' = Some zone"
    and "secrets ''RECORD_ID'' = Some rid"
    and "records_get w cl [(''zone_id'', JStr zone), (''dns_record_id'', JStr rid)] = Inr record"
  shows "update_dns_ip w s secrets calls =
     (case fst (get_public_ip w s cs) of
        Inl e \<Rightarrow> (Inl e, calls @ [fetch_call cl zone rid, lookup_call])
      | Inr pub_ip_info \<Rightarrow>
          (case subscript pub_ip_info ''ip'' of
             Inl e \<Rightarrow> (Inl e, calls @ [fetch_call cl zone rid, lookup_call])
           | Inr ip \<Rightarrow>
               if JStr (content record) \<noteq> ip
               then issue_update w secrets cl record pub_ip_info
                      (calls @ [fetch_call cl zone rid, lookup_call])
               else (Inr None, calls @ [fetch_call cl zone rid, lookup_call])))"
  using assms
  by (simp add: update_dns_ip_def getitem_def Let_def
        get_public_ip_eq [of w s "calls @ [fetch_call cl zone rid]" cs]
      split: sum.splits)

lemma issue_update_eq:
  assumes "subscript pub_ip_info ''ip'' = Inr ip"
    and "secrets ''ZONE_ID'' = Some zone"
  shows "issue_update w secrets cl record pub_ip_info calls =
     (case records_update w cl
             [(''name'', JStr (name record)), (''type'', JStr (record_type record)),
              (''dns_record_id'', JStr (record_id record)), (''content'', ip),
              (''zone_id'', JStr zone)] of
        Inl e \<Rightarrow> Inl e
      | Inr updated \<Rightarrow> Inr (Some updated),
      calls @ [RecordsUpdate cl
             [(''name'', JStr (name record)), (''type'', JStr (record_type record)),
              (''dns_record_id'', JStr (record_id record)), (''content'', ip),
              (''zone_id'', JStr zone)]])"
  using assms by (simp add: issue_update_def getitem_def Let_def split: sum.splits)

lemma update_dns_ip_differs:
  assumes "cloudflare_client secrets = Inr cl"
    and "secrets ''ZONE_ID'' = Some zone"
    and "secrets ''RECORD_ID'' = Some rid"
    and "records_get w cl [(''zone_id'', JStr zone), (''dns_record_id'', JStr rid)] = Inr record"
    and "fst (get_public_ip w s cs) = Inr pub_ip_info"
    and "subscript pub_ip_info ''ip'' = Inr ip"
    and "JStr (content record) \<noteq> ip"
  shows "update_dns_ip w s secrets calls =
     (case records_update w cl
             [(''name'', JStr (name record)), (''type'', JStr (record_type record)),
              (''dns_record_id'', JStr (record_id record)), (''content'', ip),
              (''zone_id'', JStr zone)] of
        Inl e \<Rightarrow> Inl e
      | Inr updated \<Rightarrow> Inr (Some updated),
      calls @ [fetch_call cl zone rid, lookup_call,
        RecordsUpdate cl
             [(''name'', JStr (name record)), (''type'', JStr (record_type record)),
              (''dns_record_id'', JStr (record_id record)), (''content'', ip),
              (''zone_id'', JStr zone)]])"
  using assms(2,5-7)
  by (simp add: update_dns_ip_fetched [OF assms(1-4), of s calls cs] issue_update_eq)

lemma update_dns_ip_no_client:
  "cloudflare_client secrets = Inl e \<Longrightarrow> update_dns_ip w s secrets calls = (Inl e, calls)"
  by (simp add: update_dns_ip_def)

lemma update_dns_ip_no_zone:
  "cloudflare_client secrets = Inr cl \<Longrightarrow> secrets ''ZONE_ID'' = None \<Longrightarrow>
   update_dns_ip w s secrets calls = (Inl (KeyError ''ZONE_ID''), calls)"
  by (simp add: update_dns_ip_def getitem_def)

lemma update_dns_ip_no_record_id:
  "cloudflare_client secrets = Inr cl \<Longrightarrow> secrets ''ZONE_ID'' = Some zone \<Longrightarrow>
   secrets ''RECORD_ID'' = None \<Longrightarrow>
   update_dns_ip w s secrets calls = (Inl (KeyError ''RECORD_ID''), calls)"
  by (simp add: update_dns_ip_def getitem_def)

lemma update_dns_ip_fetch_failed:
  "cloudflare_client secrets = Inr cl \<Longrightarrow> secrets ''ZONE_ID'' = Some zone \<Longrightarrow>
   secrets ''RECORD_ID'' = Some rid \<Longrightarrow>
   records_get w cl [(''zone_id'', JStr zone), (''dns_record_id'', JStr rid)] = Inl e \<Longrightarrow>
   update_dns_ip w s secrets calls = (Inl e, calls @ [fetch_call cl zone rid])"
  by (simp add: update_dns_ip_def getitem_def)

text \<open>Every run issues one of four sequences of calls.\<close>

lemma update_dns_ip_calls:
  "snd (update_dns_ip w s secrets calls) = calls
   \<or> (\<exists>cl zone rid.
        cloudflare_client secrets = Inr cl \<and>
        (snd (update_dns_ip w s secrets calls) = calls @ [fetch_call cl zone rid]
         \<or> snd (update_dns_ip w s secrets calls) = calls @ [fetch_call cl zone rid, lookup_call]
         \<or> (\<exists>kw pub_ip_info.
               fst (get_public_ip w s cs) = Inr pub_ip_info \<and>
               snd (update_dns_ip w s secrets calls) =
                 calls @ [fetch_call cl zone rid, lookup_call, RecordsUpdate cl kw])))"
proof (cases "cloudflare_client secrets")
  case (Inl e)
  then show ?thesis by (simp add: update_dns_ip_no_client)
next
  case cl: (Inr cl)
  show ?thesis
  proof (cases "secrets ''ZONE_ID''")
    case None
    with cl show ?thesis by (simp add: update_dns_ip_no_zone)
  next
    case zone: (Some zone)
    show ?thesis
    proof (cases "secrets ''RECORD_ID''")
      case None
      with cl zone show ?thesis by (simp add: update_dns_ip_no_record_id)
    next
      case rid: (Some rid)
      show ?thesis
      proof (cases "records_get w cl [(''zone_id'', JStr zone), (''dns_record_id'', JStr rid)]")
        case (Inl e)
        with cl zone rid show ?thesis by (simp add: update_dns_ip_fetch_failed)
      next
        case rec: (Inr r)
        note unfold = update_dns_ip_fetched [OF cl zone rid rec, of s calls cs]
        show ?thesis
        proof (cases "fst (get_public_ip w s cs)")
          case (Inl e)
          with cl show ?thesis by (simp add: unfold)
        next
          case info: (Inr pub_ip_info)
          show ?thesis
          proof (cases "subscript pub_ip_info ''ip''")
            case (Inl e)
            with cl info show ?thesis by (simp add: unfold)
          next
            case ip: (Inr ip)
            show ?thesis
            proof (cases "JStr (content r) = ip")
              case True
              with cl info ip show ?thesis by (simp add: unfold)
            next
              case False
              with cl info ip zone show ?thesis
                by (simp add: unfold issue_update_eq)
            qed
          qed
        qed
      qed
    qed
  qed
qed

lemma fetch_first_prefix:
  assumes "prefix new [RecordsGet cl kw, lookup_call, RecordsUpdate cl kw']"
  shows "\<forall>i<length new. is_lookup (new ! i) \<longrightarrow> (\<exists>j<i. is_fetch (new ! j))"
proof -
  from assms consider "new = []" | "new = [RecordsGet cl kw]"
    | "new = [RecordsGet cl kw, lookup_call]"
    | "new = [RecordsGet cl kw, lookup_call, RecordsUpdate cl kw']"
    by (auto simp: prefix_Cons)
  then show ?thesis
  proof cases
    case 1
    then show ?thesis by simp
  next
    case 2
    then show ?thesis by simp
  next
    case 3
    then show ?thesis by (simp add: All_less_Suc Ex_less_Suc)
  next
    case 4
    then show ?thesis by (simp add: All_less_Suc Ex_less_Suc numeral_3_eq_3)
  qed
qed

lemma call_order_props:
  assumes "prefix new [RecordsGet cl kw, lookup_call, RecordsUpdate cl kw']"
    and "failed \<longrightarrow> new \<noteq> [RecordsGet cl kw, lookup_call, RecordsUpdate cl kw']"
  shows "(\<exists>cl kw kw'. prefix new [RecordsGet cl kw, lookup_call, RecordsUpdate cl kw'])
      \<and> (\<forall>i<length new. is_lookup (new ! i) \<longrightarrow> (\<exists>j<i. is_fetch (new ! j)))
      \<and> length (filter is_update new) \<le> 1
      \<and> (failed \<longrightarrow> filter is_update new = [])"
proof (intro conjI)
  show "\<exists>cl kw kw'. prefix new [RecordsGet cl kw, lookup_call, RecordsUpdate cl kw']"
    using assms(1) by blast
  show "\<forall>i<length new. is_lookup (new ! i) \<longrightarrow> (\<exists>j<i. is_fetch (new ! j))"
    using assms(1) by (rule fetch_first_prefix)
  from assms(1) consider "new = []" | "new = [RecordsGet cl kw]"
    | "new = [RecordsGet cl kw, lookup_call]"
    | "new = [RecordsGet cl kw, lookup_call, RecordsUpdate cl kw']"
    by (auto simp: prefix_Cons)
  then show "length (filter is_update new) \<le> 1"
    by cases simp_all
  from assms(1) consider "new = []" | "new = [RecordsGet cl kw]"
    | "new = [RecordsGet cl kw, lookup_call]"
    | "new = [RecordsGet cl kw, lookup_call, RecordsUpdate cl kw']"
    by (auto simp: prefix_Cons)
  then show "failed \<longrightarrow> filter is_update new = []"
    using assms(2) by cases simp_all
qed

section \<open>The claims\<close>

text \<open>
  Claim C1. Whenever the record was fetched and the lookup resolved to a mapping whose
  \<open>ip\<close> is exactly the string stored in the record's \<open>content\<close>, \<open>update_dns_ip\<close>
  returns \<open>None\<close> and the only calls it issued are the provider read and the lookup: no
  update call.
\<close>

theorem update_dns_ip_in_sync:
  assumes "cloudflare_client secrets = Inr cl"
    and "secrets ''ZONE_ID'' = Some zone"
    and "secrets ''RECORD_ID'' = Some rid"
    and "records_get w cl [(''zone_id'', JStr zone), (''dns_record_id'', JStr rid)] = Inr record"
    and "fst (get_public_ip w s cs) = Inr pub_ip_info"
    and "subscript pub_ip_info ''ip'' = Inr (JStr (content record))"
  shows "update_dns_ip w s secrets calls =
           (Inr None, calls @ [fetch_call cl zone rid, lookup_call])
         \<and> filter is_update (drop (length calls) (snd (update_dns_ip w s secrets calls))) = []"
  using assms(5,6) by (simp add: update_dns_ip_fetched [OF assms(1-4), of s calls cs])

theorem update_dns_ip_in_sync_witness:
  "update_dns_ip (mock_world (Inr (ip_response 200 ''1.2.3.4'')) example_record) True
     example_secrets [] =
   (Inr None, [fetch_call example_client ''zone-1'' ''rec-1'', lookup_call])"
  using update_dns_ip_in_sync
    [of example_secrets example_client "''zone-1''" "''rec-1''"
        "mock_world (Inr (ip_response 200 ''1.2.3.4'')) example_record" example_record
        True "[]" "JObj [(''ip'', JStr ''1.2.3.4'')]" "[]"]
  by (simp add: example_secrets_def example_client_def example_record_def mock_world_def
        ip_response_def cloudflare_client_def getitem_def get_public_ip_def
        Response_raise_for_status_def Response_json_def)

text \<open>
  Claim C2. Whenever the record was fetched and the lookup resolved to a mapping whose
  \<open>ip\<close> differs from the record's \<open>content\<close>, \<open>update_dns_ip\<close> issues exactly one update
  call, after the read and the lookup; its \<open>content\<close> is the resolved ip, its \<open>name\<close> and
  \<open>type\<close> are those of the fetched record; and the function returns what the provider
  returned for that call (the updated record, or the provider's error).
\<close>

theorem update_dns_ip_changed_once:
  assumes "cloudflare_client secrets = Inr cl"
    and "secrets ''ZONE_ID'' = Some zone"
    and "secrets ''RECORD_ID'' = Some rid"
    and "records_get w cl [(''zone_id'', JStr zone), (''dns_record_id'', JStr rid)] = Inr record"
    and "fst (get_public_ip w s cs) = Inr pub_ip_info"
    and "subscript pub_ip_info ''ip'' = Inr ip"
    and "JStr (content record) \<noteq> ip"
  shows "\<exists>kw. snd (update_dns_ip w s secrets calls) =
                 calls @ [fetch_call cl zone rid, lookup_call, RecordsUpdate cl kw]
           \<and> map_of kw ''content'' = Some ip
           \<and> map_of kw ''name'' = Some (JStr (name record))
           \<and> map_of kw ''type'' = Some (JStr (record_type record))
           \<and> fst (update_dns_ip w s secrets calls) =
                (case records_update w cl kw of
                   Inl e \<Rightarrow> Inl e
                 | Inr updated \<Rightarrow> Inr (Some updated))
           \<and> length (filter is_update (drop (length calls)
                 (snd (update_dns_ip w s secrets calls)))) = 1"
  by (simp add: update_dns_ip_differs [OF assms, of calls])

theorem update_dns_ip_changed_once_witness:
  "\<exists>kw. snd (update_dns_ip (mock_world (Inr (ip_response 200 ''5.6.7.8'')) example_record) True
             example_secrets []) =
          [fetch_call example_client ''zone-1'' ''rec-1'', lookup_call,
           RecordsUpdate example_client kw]
     \<and> map_of kw ''content'' = Some (JStr ''5.6.7.8'')
     \<and> map_of kw ''name'' = Some (JStr ''home.example.com'')
     \<and> map_of kw ''type'' = Some (JStr ''A'')
     \<and> fst (update_dns_ip (mock_world (Inr (ip_response 200 ''5.6.7.8'')) example_record) True
             example_secrets []) =
          Inr (Some (example_record\<lparr>content := ''5.6.7.8''\<rparr>))"
proof -
  let ?w = "mock_world (Inr (ip_response 200 ''5.6.7.8'')) example_record"
  have cl: "cloudflare_client example_secrets = Inr example_client"
    by (simp add: example_secrets_def example_client_def cloudflare_client_def getitem_def)
  have zone: "example_secrets ''ZONE_ID'' = Some ''zone-1''"
    and rid: "example_secrets ''RECORD_ID'' = Some ''rec-1''"
    by (simp_all add: example_secrets_def)
  have fetched: "records_get ?w example_client
      [(''zone_id'', JStr ''zone-1''), (''dns_record_id'', JStr ''rec-1'')] = Inr example_record"
    by (simp add: mock_world_def)
  have info: "fst (get_public_ip ?w True []) = Inr (JObj [(''ip'', JStr ''5.6.7.8'')])"
    by (simp add: get_public_ip_def mock_world_def ip_response_def
          Response_raise_for_status_def Response_json_def)
  have ip: "subscript (JObj [(''ip'', JStr ''5.6.7.8'')]) ''ip'' = Inr (JStr ''5.6.7.8'')"
    by simp
  have differs: "JStr (content example_record) \<noteq> JStr ''5.6.7.8''"
    by (simp add: example_record_def)
  from update_dns_ip_changed_once [OF cl zone rid fetched info ip differs, of "[]"]
  obtain kw where kw:
    "snd (update_dns_ip ?w True example_secrets []) =
       [fetch_call example_client ''zone-1'' ''rec-1'', lookup_call,
        RecordsUpdate example_client kw]"
    "map_of kw ''content'' = Some (JStr ''5.6.7.8'')"
    "map_of kw ''name'' = Some (JStr (name example_record))"
    "map_of kw ''type'' = Some (JStr (record_type example_record))"
    "fst (update_dns_ip ?w True example_secrets []) =
       (case records_update ?w example_client kw of
          Inl e \<Rightarrow> Inl e
        | Inr updated \<Rightarrow> Inr (Some updated))"
    by auto
  from kw(2,5) have "fst (update_dns_ip ?w True example_secrets []) =
      Inr (Some (example_record\<lparr>content := ''5.6.7.8''\<rparr>))"
    by (simp add: mock_world_def)
  with kw(1-4) show ?thesis
    by (auto simp: example_record_def)
qed

text \<open>
  Claim C3. If the credentials lack \<open>CLOUDFLARE_API_TOKEN\<close>, \<open>ZONE_ID\<close> or \<open>RECORD_ID\<close>,
  \<open>update_dns_ip\<close> raises \<open>KeyError\<close> for one of the missing keys and the list of calls is
  unchanged: no provider read, no lookup, no write.
\<close>

theorem update_dns_ip_missing_secret:
  assumes "secrets ''CLOUDFLARE_API_TOKEN'' = None \<or> secrets ''ZONE_ID'' = None
           \<or> secrets ''RECORD_ID'' = None"
  shows "\<exists>k. (k = ''CLOUDFLARE_API_TOKEN'' \<or> k = ''ZONE_ID'' \<or> k = ''RECORD_ID'')
           \<and> secrets k = None
           \<and> update_dns_ip w s secrets calls = (Inl (KeyError k), calls)"
proof (cases "secrets ''CLOUDFLARE_API_TOKEN''")
  case None
  then have "update_dns_ip w s secrets calls = (Inl (KeyError ''CLOUDFLARE_API_TOKEN''), calls)"
    by (simp add: update_dns_ip_no_client cloudflare_client_missing)
  with None show ?thesis by blast
next
  case (Some token)
  then obtain cl where cl: "cloudflare_client secrets = Inr cl"
    by (simp add: cloudflare_client_token)
  show ?thesis
  proof (cases "secrets ''ZONE_ID''")
    case None
    with cl have "update_dns_ip w s secrets calls = (Inl (KeyError ''ZONE_ID''), calls)"
      by (simp add: update_dns_ip_no_zone)
    with None show ?thesis by blast
  next
    case zone: (Some zone)
    with Some assms have none: "secrets ''RECORD_ID'' = None" by simp
    with cl zone have "update_dns_ip w s secrets calls = (Inl (KeyError ''RECORD_ID''), calls)"
      by (simp add: update_dns_ip_no_record_id)
    with none show ?thesis by blast
  qed
qed

theorem update_dns_ip_missing_secret_witness:
  "update_dns_ip (mock_world (Inr (ip_response 200 ''5.6.7.8'')) example_record) True
     incomplete_secrets [] = (Inl (KeyError ''RECORD_ID''), [])"
proof -
  have "incomplete_secrets ''CLOUDFLARE_API_TOKEN'' = None
      \<or> incomplete_secrets ''ZONE_ID'' = None
      \<or> incomplete_secrets ''RECORD_ID'' = None"
    by (simp add: incomplete_secrets_def)
  from update_dns_ip_missing_secret [OF this,
      of "mock_world (Inr (ip_response 200 ''5.6.7.8'')) example_record" True "[]"]
  obtain k where k: "k = ''CLOUDFLARE_API_TOKEN'' \<or> k = ''ZONE_ID'' \<or> k = ''RECORD_ID''"
    "incomplete_secrets k = None"
    "update_dns_ip (mock_world (Inr (ip_response 200 ''5.6.7.8'')) example_record) True
       incomplete_secrets [] = (Inl (KeyError k), [])"
    by blast
  from k(1,2) have "k = ''RECORD_ID''"
    by (auto simp: incomplete_secrets_def)
  with k(3) show ?thesis by simp
qed

text \<open>
  Claim C4, as stated, fails. A response with status 300 is not 2xx, yet in strict mode
  \<open>raise_for_status\<close> lets it pass: \<open>get_public_ip\<close> returns the decoded body, and
  \<open>update_dns_ip\<close> goes on to issue the update.
\<close>

theorem get_public_ip_strict_redirect_counterexample:
  "\<not> (200 \<le> status_code (ip_response 300 ''5.6.7.8'')
        \<and> status_code (ip_response 300 ''5.6.7.8'') < 300)
   \<and> get_public_ip (mock_world (Inr (ip_response 300 ''5.6.7.8'')) example_record) True [] =
       (Inr (JObj [(''ip'', JStr ''5.6.7.8'')]), [lookup_call])
   \<and> filter is_update (snd (update_dns_ip
        (mock_world (Inr (ip_response 300 ''5.6.7.8'')) example_record) True example_secrets []))
       \<noteq> []"
  by (simp add: get_public_ip_def update_dns_ip_def issue_update_def cloudflare_client_def
        getitem_def mock_world_def ip_response_def example_record_def example_secrets_def
        Response_raise_for_status_def Response_json_def)

text \<open>
  Claim C4, amended. For every lookup response with a 4xx or 5xx status, in strict mode
  \<open>get_public_ip\<close> raises \<open>HTTPError\<close> carrying the response (its status code and body).
  Within \<open>update_dns_ip\<close>, once the record has been fetched, the same error is raised
  after the provider read and the lookup and before the comparison: no update call.
\<close>

theorem get_public_ip_strict_http_error:
  assumes "requests_get w ''https://ifconfig.co/'' [(''Accept'', ''application/json'')] = Inr resp"
    and "400 \<le> status_code resp" and "status_code resp < 600"
  shows "get_public_ip w True calls = (Inl (HTTPError resp), calls @ [lookup_call])
       \<and> (cloudflare_client secrets = Inr cl \<and> secrets ''ZONE_ID'' = Some zone
            \<and> secrets ''RECORD_ID'' = Some rid
            \<and> records_get w cl [(''zone_id'', JStr zone), (''dns_record_id'', JStr rid)]
                = Inr record
          \<longrightarrow> update_dns_ip w True secrets calls =
                (Inl (HTTPError resp), calls @ [fetch_call cl zone rid, lookup_call]))"
proof -
  have raised: "get_public_ip w True cs = (Inl (HTTPError resp), cs @ [lookup_call])" for cs
    using assms by (simp add: get_public_ip_def Response_raise_for_status_def)
  show ?thesis
  proof (intro conjI impI)
    show "get_public_ip w True calls = (Inl (HTTPError resp), calls @ [lookup_call])"
      by (rule raised)
  next
    assume a: "cloudflare_client secrets = Inr cl \<and> secrets ''ZONE_ID'' = Some zone
            \<and> secrets ''RECORD_ID'' = Some rid
            \<and> records_get w cl [(''zone_id'', JStr zone), (''dns_record_id'', JStr rid)]
                = Inr record"
    then show "update_dns_ip w True secrets calls =
        (Inl (HTTPError resp), calls @ [fetch_call cl zone rid, lookup_call])"
      by (simp add: update_dns_ip_def getitem_def raised)
  qed
qed

theorem get_public_ip_strict_http_error_witness:
  "get_public_ip (mock_world (Inr (ip_response 500 ''5.6.7.8'')) example_record) True [] =
     (Inl (HTTPError (ip_response 500 ''5.6.7.8'')), [lookup_call])
   \<and> update_dns_ip (mock_world (Inr (ip_response 500 ''5.6.7.8'')) example_record) True
       example_secrets [] =
     (Inl (HTTPError (ip_response 500 ''5.6.7.8'')),
      [fetch_call example_client ''zone-1'' ''rec-1'', lookup_call])"
  using get_public_ip_strict_http_error
    [of "mock_world (Inr (ip_response 500 ''5.6.7.8'')) example_record"
        "ip_response 500 ''5.6.7.8''" "[]" example_secrets example_client
        "''zone-1''" "''rec-1''" example_record]
  by (simp add: mock_world_def ip_response_def example_secrets_def example_client_def
        cloudflare_client_def getitem_def)

text \<open>
  Claim C5, as stated, fails. A response whose body is empty (zero bytes) is not valid
  JSON: in non-strict mode \<open>get_public_ip\<close> raises \<open>JSONDecodeError\<close> instead of returning
  a mapping.
\<close>

theorem get_public_ip_lenient_empty_body_counterexample:
  "get_public_ip (mock_world (Inr empty_body_response) example_record) False [] =
     (Inl JSONDecodeError, [lookup_call])"
  by (simp add: get_public_ip_def mock_world_def empty_body_response_def Response_json_def)

text \<open>
  Claim C5, amended. In non-strict mode \<open>get_public_ip\<close> never raises \<open>HTTPError\<close> and
  its outcome is that of decoding the body, whatever the status: a body that is valid
  JSON is returned decoded (the empty object as the empty mapping), a body that is not
  valid JSON raises \<open>JSONDecodeError\<close>, and two responses with the same decoded body give
  the same outcome.
\<close>

theorem get_public_ip_lenient:
  assumes "requests_get w ''https://ifconfig.co/'' [(''Accept'', ''application/json'')] = Inr resp"
  shows "get_public_ip w False calls = (Response_json resp, calls @ [lookup_call])
       \<and> (\<forall>r. fst (get_public_ip w False calls) \<noteq> Inl (HTTPError r))
       \<and> (\<forall>v. decoded resp = Some v \<longrightarrow> fst (get_public_ip w False calls) = Inr v)
       \<and> (decoded resp = None \<longrightarrow> fst (get_public_ip w False calls) = Inl JSONDecodeError)
       \<and> (\<forall>w' resp'.
            requests_get w' ''https://ifconfig.co/'' [(''Accept'', ''application/json'')]
              = Inr resp'
            \<and> decoded resp' = decoded resp
          \<longrightarrow> fst (get_public_ip w' False calls) = fst (get_public_ip w False calls))"
  using assms
  by (auto simp: get_public_ip_def Response_json_def split: option.splits)

theorem get_public_ip_lenient_witness:
  "get_public_ip (mock_world (Inr empty_object_response) example_record) False [] =
     (Inr (JObj []), [lookup_call])"
  using get_public_ip_lenient
    [of "mock_world (Inr empty_object_response) example_record" empty_object_response "[]"]
  by (simp add: mock_world_def empty_object_response_def Response_json_def)

text \<open>
  Claim C6. In every run of \<open>update_dns_ip\<close> the calls issued form a prefix of
  \<open>[provider read, lookup, provider update]\<close>: a lookup is always preceded by the
  provider read, at most one update is issued, and when \<open>get_public_ip\<close> fails no update
  is issued.
\<close>

theorem update_dns_ip_call_order:
  "\<exists>new. snd (update_dns_ip w s secrets calls) = calls @ new
      \<and> (\<exists>cl kw kw'. prefix new [RecordsGet cl kw, lookup_call, RecordsUpdate cl kw'])
      \<and> (\<forall>i<length new. is_lookup (new ! i) \<longrightarrow> (\<exists>j<i. is_fetch (new ! j)))
      \<and> length (filter is_update new) \<le> 1
      \<and> (isl (fst (get_public_ip w s cs)) \<longrightarrow> filter is_update new = [])"
proof -
  from update_dns_ip_calls [of w s secrets calls cs]
  consider (none) "snd (update_dns_ip w s secrets calls) = calls @ []"
    | (fetch) cl zone rid where
        "snd (update_dns_ip w s secrets calls) = calls @ [fetch_call cl zone rid]"
    | (lookup) cl zone rid where
        "snd (update_dns_ip w s secrets calls) = calls @ [fetch_call cl zone rid, lookup_call]"
    | (update) cl zone rid kw pub_ip_info where
        "fst (get_public_ip w s cs) = Inr pub_ip_info"
        "snd (update_dns_ip w s secrets calls) =
           calls @ [fetch_call cl zone rid, lookup_call, RecordsUpdate cl kw]"
    by auto
  then show ?thesis
  proof cases
    case none
    have "prefix [] [RecordsGet undefined [], lookup_call, RecordsUpdate undefined []]"
      by simp
    from call_order_props [OF this, of "isl (fst (get_public_ip w s cs))"] none
    show ?thesis by blast
  next
    case fetch
    have "prefix [fetch_call cl zone rid]
        [fetch_call cl zone rid, lookup_call, RecordsUpdate cl []]"
      by simp
    from call_order_props [OF this, of "isl (fst (get_public_ip w s cs))"] fetch
    show ?thesis by blast
  next
    case lookup
    have "prefix [fetch_call cl zone rid, lookup_call]
        [fetch_call cl zone rid, lookup_call, RecordsUpdate cl []]"
      by simp
    from call_order_props [OF this, of "isl (fst (get_public_ip w s cs))"] lookup
    show ?thesis by blast
  next
    case update
    have "prefix [fetch_call cl zone rid, lookup_call, RecordsUpdate cl kw]
        [fetch_call cl zone rid, lookup_call, RecordsUpdate cl kw]"
      by simp
    from call_order_props [OF this, of False] update
    show ?thesis by (intro exI [of _ "[fetch_call cl zone rid, lookup_call, RecordsUpdate cl kw]"]) simp
  qed
qed

theorem update_dns_ip_call_order_witness:
  "isl (fst (get_public_ip (mock_world (Inr (ip_response 500 ''5.6.7.8'')) example_record)
        True []))
   \<and> filter is_update (snd (update_dns_ip
        (mock_world (Inr (ip_response 500 ''5.6.7.8'')) example_record) True example_secrets []))
      = []"
proof -
  let ?w = "mock_world (Inr (ip_response 500 ''5.6.7.8'')) example_record"
  have failed: "isl (fst (get_public_ip ?w True []))"
    by (simp add: get_public_ip_def mock_world_def ip_response_def
          Response_raise_for_status_def)
  from update_dns_ip_call_order [of ?w True example_secrets "[]" "[]"]
  obtain new where "snd (update_dns_ip ?w True example_secrets []) = [] @ new"
    and "isl (fst (get_public_ip ?w True [])) \<longrightarrow> filter is_update new = []"
    by blast
  with failed show ?thesis by simp
qed

text \<open>
  Claim C7. In non-strict mode, when the record was fetched and the lookup response
  decodes to a mapping without the key \<open>ip\<close>, \<open>update_dns_ip\<close> raises \<open>KeyError\<close> for \<open>ip\<close>
  at the comparison, after the provider read and the lookup: no update call.
\<close>

theorem update_dns_ip_missing_ip:
  assumes "cloudflare_client secrets = Inr cl"
    and "secrets ''ZONE_ID'' = Some zone"
    and "secrets ''RECORD_ID'' = Some rid"
    and "records_get w cl [(''zone_id'', JStr zone), (''dns_record_id'', JStr rid)] = Inr record"
    and "requests_get w ''https://ifconfig.co/'' [(''Accept'', ''application/json'')] = Inr resp"
    and "decoded resp = Some (JObj kvs)"
    and "map_of kvs ''ip'' = None"
  shows "update_dns_ip w False secrets calls =
           (Inl (KeyError ''ip''), calls @ [fetch_call cl zone rid, lookup_call])
         \<and> filter is_update (drop (length calls) (snd (update_dns_ip w False secrets calls))) = []"
proof -
  from assms(5,6) have "fst (get_public_ip w False []) = Inr (JObj kvs)"
    by (simp add: get_public_ip_def Response_json_def)
  with assms(7) show ?thesis
    by (simp add: update_dns_ip_fetched [OF assms(1-4), of False calls "[]"])
qed

theorem update_dns_ip_missing_ip_witness:
  "update_dns_ip (mock_world (Inr empty_object_response) example_record) False
     example_secrets [] =
   (Inl (KeyError ''ip''), [fetch_call example_client ''zone-1'' ''rec-1'', lookup_call])"
  using update_dns_ip_missing_ip
    [of example_secrets example_client "''zone-1''" "''rec-1''"
        "mock_world (Inr empty_object_response) example_record" example_record
        empty_object_response "[]" "[]"]
  by (simp add: example_secrets_def example_client_def mock_world_def
        empty_object_response_def cloudflare_client_def getitem_def)

text \<open>
  Claim C8, as stated, fails. The update is addressed with \<open>record.id\<close>, the identifier
  of the fetched record, not with \<open>secrets["RECORD_ID"]\<close>: when the provider answers the
  read for \<open>rec-1\<close> with a record whose id is \<open>rec-2\<close>, the update goes to \<open>rec-2\<close>.
\<close>

theorem update_dns_ip_record_id_counterexample:
  "example_secrets ''RECORD_ID'' = Some ''rec-1''
   \<and> snd (update_dns_ip
        (mock_world (Inr (ip_response 200 ''5.6.7.8'')) (example_record\<lparr>record_id := ''rec-2''\<rparr>))
        True example_secrets []) =
      [fetch_call example_client ''zone-1'' ''rec-1'', lookup_call,
       RecordsUpdate example_client
         [(''name'', JStr ''home.example.com''), (''type'', JStr ''A''),
          (''dns_record_id'', JStr ''rec-2''), (''content'', JStr ''5.6.7.8''),
          (''zone_id'', JStr ''zone-1'')]]"
  by (simp add: update_dns_ip_def issue_update_def get_public_ip_def cloudflare_client_def
        getitem_def mock_world_def ip_response_def example_record_def example_secrets_def
        example_client_def Response_raise_for_status_def Response_json_def)

text \<open>
  Claim C8, amended. When \<open>update_dns_ip\<close> issues an update, it goes through the same
  client as the read, its \<open>zone_id\<close> is the configured \<open>ZONE_ID\<close> used for the read, and its
  \<open>dns_record_id\<close> is the \<open>id\<close> of the fetched record, which is the configured
  \<open>RECORD_ID\<close> whenever the provider returned the record under the identifier it was
  asked for.
\<close>

theorem update_dns_ip_addressing:
  assumes "cloudflare_client secrets = Inr cl"
    and "secrets ''ZONE_ID'' = Some zone"
    and "secrets ''RECORD_ID'' = Some rid"
    and "records_get w cl [(''zone_id'', JStr zone), (''dns_record_id'', JStr rid)] = Inr record"
    and "fst (get_public_ip w s cs) = Inr pub_ip_info"
    and "subscript pub_ip_info ''ip'' = Inr ip"
    and "JStr (content record) \<noteq> ip"
  shows "\<exists>kw. snd (update_dns_ip w s secrets calls) =
                 calls @ [RecordsGet cl [(''zone_id'', JStr zone), (''dns_record_id'', JStr rid)],
                          lookup_call, RecordsUpdate cl kw]
           \<and> map_of kw ''zone_id'' = Some (JStr zone)
           \<and> map_of kw ''dns_record_id'' = Some (JStr (record_id record))
           \<and> (record_id record = rid \<longrightarrow> map_of kw ''dns_record_id'' = Some (JStr rid))"
  by (simp add: update_dns_ip_differs [OF assms, of calls])

theorem update_dns_ip_addressing_witness:
  "\<exists>kw. snd (update_dns_ip (mock_world (Inr (ip_response 200 ''5.6.7.8'')) example_record) True
             example_secrets []) =
          [fetch_call example_client ''zone-1'' ''rec-1'', lookup_call,
           RecordsUpdate example_client kw]
     \<and> map_of kw ''zone_id'' = Some (JStr ''zone-1'')
     \<and> map_of kw ''dns_record_id'' = Some (JStr ''rec-1'')"
  using update_dns_ip_addressing
    [of example_secrets example_client "''zone-1''" "''rec-1''"
        "mock_world (Inr (ip_response 200 ''5.6.7.8'')) example_record" example_record
        True "[]" "JObj [(''ip'', JStr ''5.6.7.8'')]" "JStr ''5.6.7.8''" "[]"]
  by (simp add: example_secrets_def example_client_def example_record_def mock_world_def
        ip_response_def cloudflare_client_def getitem_def get_public_ip_def
        Response_raise_for_status_def Response_json_def)

text \<open>
  Claim C9. For credentials that contain \<open>CLOUDFLARE_API_TOKEN\<close>, the client is built
  with that token as \<open>api_token\<close> and with the default header \<open>Authorization\<close> set to
  \<open>Bearer\<close>, a space and the same token; every provider call of \<open>update_dns_ip\<close> goes
  through this client.
\<close>

theorem cloudflare_client_dual_token:
  assumes "secrets ''CLOUDFLARE_API_TOKEN'' = Some token"
  shows "\<exists>cl. cloudflare_client secrets = Inr cl
           \<and> api_token cl = token
           \<and> map_of (default_headers cl) ''Authorization'' = Some (''Bearer '' @ token)
           \<and> (\<forall>c \<in> set (drop (length calls) (snd (update_dns_ip w s secrets calls))).
                 call_client c = None \<or> call_client c = Some cl)"
proof -
  let ?cl = "\<lparr>api_email = secrets ''CLOUDFLARE_EMAIL'', api_token = token,
          default_headers = [(''Authorization'', ''Bearer '' @ token)]\<rparr>"
  have cl: "cloudflare_client secrets = Inr ?cl"
    using assms by (rule cloudflare_client_token)
  have "\<forall>c \<in> set (drop (length calls) (snd (update_dns_ip w s secrets calls))).
          call_client c = None \<or> call_client c = Some ?cl"
    using update_dns_ip_calls [of w s secrets calls "[]"] cl by auto
  with cl show ?thesis by simp
qed

theorem cloudflare_client_dual_token_witness:
  "cloudflare_client example_secrets = Inr example_client
   \<and> api_token example_client = ''s3cr3t''
   \<and> map_of (default_headers example_client) ''Authorization'' = Some ''Bearer s3cr3t''
   \<and> map call_client (snd (update_dns_ip
        (mock_world (Inr (ip_response 200 ''5.6.7.8'')) example_record) True example_secrets []))
      = [Some example_client, None, Some example_client]"
proof -
  let ?w = "mock_world (Inr (ip_response 200 ''5.6.7.8'')) example_record"
  have tok: "example_secrets ''CLOUDFLARE_API_TOKEN'' = Some ''s3cr3t''"
    by (simp add: example_secrets_def)
  from cloudflare_client_dual_token [of example_secrets "''s3cr3t''" "[]" ?w True] tok
  obtain cl where cl: "cloudflare_client example_secrets = Inr cl"
    "api_token cl = ''s3cr3t''"
    "map_of (default_headers cl) ''Authorization'' = Some (''Bearer '' @ ''s3cr3t'')"
    by blast
  have "cloudflare_client example_secrets = Inr example_client"
    by (simp add: example_secrets_def example_client_def cloudflare_client_def getitem_def)
  with cl have "cl = example_client" by simp
  moreover have "map call_client (snd (update_dns_ip ?w True example_secrets []))
      = [Some example_client, None, Some example_client]"
    by (simp add: update_dns_ip_def issue_update_def get_public_ip_def cloudflare_client_def
        getitem_def mock_world_def ip_response_def example_record_def example_secrets_def
        example_client_def Response_raise_for_status_def Response_json_def)
  ultimately show ?thesis using cl by simp
qed

text \<open>
  Claim C10. When \<open>update_dns_ip\<close> issues an update, its keyword arguments are exactly
  \<open>name\<close>, \<open>type\<close>, \<open>dns_record_id\<close>, \<open>content\<close> and \<open>zone_id\<close>; the fetched record's \<open>ttl\<close>,
  \<open>proxied\<close> and \<open>comment\<close> are not forwarded: changing them in the fetched record changes
  nothing in the calls issued.
\<close>

theorem update_dns_ip_update_fields:
  assumes "cloudflare_client secrets = Inr cl"
    and "secrets ''ZONE_ID'' = Some zone"
    and "secrets ''RECORD_ID'' = Some rid"
    and "records_get w cl [(''zone_id'', JStr zone), (''dns_record_id'', JStr rid)] = Inr record"
    and "fst (get_public_ip w s cs) = Inr pub_ip_info"
    and "subscript pub_ip_info ''ip'' = Inr ip"
    and "JStr (content record) \<noteq> ip"
  shows "snd (update_dns_ip w s secrets calls) =
           calls @ [fetch_call cl zone rid, lookup_call,
             RecordsUpdate cl
               [(''name'', JStr (name record)), (''type'', JStr (record_type record)),
                (''dns_record_id'', JStr (record_id record)), (''content'', ip),
                (''zone_id'', JStr zone)]]
       \<and> (\<forall>t p c.
            snd (update_dns_ip
                  (w\<lparr>records_get := \<lambda>cl kw. Inr (record\<lparr>ttl := t, proxied := p, comment := c\<rparr>)\<rparr>)
                  s secrets calls)
            = snd (update_dns_ip w s secrets calls))"
proof -
  have base: "snd (update_dns_ip w s secrets calls) =
           calls @ [fetch_call cl zone rid, lookup_call,
             RecordsUpdate cl
               [(''name'', JStr (name record)), (''type'', JStr (record_type record)),
                (''dns_record_id'', JStr (record_id record)), (''content'', ip),
                (''zone_id'', JStr zone)]]"
    by (simp add: update_dns_ip_differs [OF assms, of calls])
  have "snd (update_dns_ip
               (w\<lparr>records_get := \<lambda>cl kw. Inr (record\<lparr>ttl := t, proxied := p, comment := c\<rparr>)\<rparr>)
               s secrets calls)
        = snd (update_dns_ip w s secrets calls)" for t p c
  proof -
    let ?r = "record\<lparr>ttl := t, proxied := p, comment := c\<rparr>"
    let ?w = "w\<lparr>records_get := \<lambda>cl kw. Inr ?r\<rparr>"
    have fetched: "records_get ?w cl [(''zone_id'', JStr zone), (''dns_record_id'', JStr rid)]
        = Inr ?r"
      by simp
    have info: "fst (get_public_ip ?w s cs) = Inr pub_ip_info"
      using assms(5) by simp
    have differs: "JStr (content ?r) \<noteq> ip"
      using assms(7) by simp
    show ?thesis
      by (simp add: base
            update_dns_ip_differs [OF assms(1-3) fetched info assms(6) differs, of calls])
  qed
  with base show ?thesis by blast
qed

theorem update_dns_ip_update_fields_witness:
  "snd (update_dns_ip (mock_world (Inr (ip_response 200 ''5.6.7.8'')) example_record) True
          example_secrets []) =
     [fetch_call example_client ''zone-1'' ''rec-1'', lookup_call,
      RecordsUpdate example_client
        [(''name'', JStr ''home.example.com''), (''type'', JStr ''A''),
         (''dns_record_id'', JStr ''rec-1''), (''content'', JStr ''5.6.7.8''),
         (''zone_id'', JStr ''zone-1'')]]"
  using update_dns_ip_update_fields
    [of example_secrets example_client "''zone-1''" "''rec-1''"
        "mock_world (Inr (ip_response 200 ''5.6.7.8'')) example_record" example_record
        True "[]" "JObj [(''ip'', JStr ''5.6.7.8'')]" "JStr ''5.6.7.8''" "[]"]
  by (simp add: example_secrets_def example_client_def example_record_def mock_world_def
        ip_response_def cloudflare_client_def getitem_def get_public_ip_def
        Response_raise_for_status_def Response_json_def)

end
